theory Spec2Isabelle
  imports Main "HOL-Library.Word"
begin

unbundle bit_operations_syntax

section \<open>Data model\<close>

text \<open>
  The embedded program is \<^verbatim>\<open>src/service/message.ts\<close>: the class
  \<^verbatim>\<open>MessageEncoder\<close> with its helpers \<^verbatim>\<open>utf8ArrayToString\<close> and
  \<^verbatim>\<open>filterExceptions\<close>.

  A \<^verbatim>\<open>Uint8Array\<close> is a list of 8-bit words. A JavaScript string is a list of
  UTF-16 code units (16-bit words): \<^verbatim>\<open>s.length\<close> is the length of the list and
  \<^verbatim>\<open>s.charCodeAt(i)\<close> its \<open>i\<close>-th element.
\<close>

type_synonym byte = "8 word"
type_synonym Uint8Array = "byte list"
type_synonym jsstring = "16 word list"

text \<open>A string literal of the source, as code units.\<close>

definition str :: "string \<Rightarrow> jsstring" where
  "str s = map (\<lambda>c. of_nat (of_char c)) s"

text \<open>
  A thrown value is an \<^verbatim>\<open>Error\<close> object; the only part of it the program reads is
  its \<^verbatim>\<open>message\<close>. A computation that may throw returns \<open>exn + 'a\<close>, with
  \<open>Inl\<close> the exception.
\<close>

datatype exn = Error string

fun exn_message :: "exn \<Rightarrow> string" where
  "exn_message (Error m) = m"

fun andThen :: "exn + 'a \<Rightarrow> ('a \<Rightarrow> exn + 'b) \<Rightarrow> exn + 'b" where
  "andThen (Inl e) f = Inl e"
| "andThen (Inr x) f = f x"

text \<open>The parameter type \<^verbatim>\<open>Uint8Array | string\<close> (also \<^verbatim>\<open>string | Uint8Array\<close>).\<close>

datatype str_or_bytes = Str jsstring | Bytes Uint8Array

text \<open>
  \<^verbatim>\<open>TryDecodeResult\<close> is declared in \<^verbatim>\<open>../model/message\<close>; its two fields are the
  ones the object literals of \<^verbatim>\<open>tryDecode\<close> set.
\<close>

record TryDecodeResult =
  isDecoded :: bool
  message :: str_or_bytes

text \<open>The class: one private field, set by the constructor.\<close>

record MessageEncoder =
  privateKey :: Uint8Array

text \<open>
  A read \<^verbatim>\<open>a[i]\<close> of a typed array: \<^verbatim>\<open>undefined\<close> (here \<open>None\<close>) out of range.
  \<^verbatim>\<open>a.subarray(1)\<close> is \<open>drop 1 a\<close>, empty on the empty array.
\<close>

definition index :: "'a list \<Rightarrow> nat \<Rightarrow> 'a option" where
  "index a i = (if i < length a then Some (a ! i) else None)"

section \<open>Collaborators that are not in the source file\<close>

subsection \<open>Hex conversion\<close>

text \<open>
  Modelled from the spec: \<^verbatim>\<open>Convert.hexToUint8\<close>, \<^verbatim>\<open>Convert.uint8ToHex\<close> and
  \<^verbatim>\<open>Convert.isHexString\<close> of \<^verbatim>\<open>../util/converter\<close> are missing. The spec gives
  them as the "bidirectional hex-string to raw-bytes" utilities: a string is a
  syntactically valid hex string when "every character [is] in 0-9a-fA-F, [and it has]
  even length"; converting a malformed hex string fails with the condition
  \<open>InvalidKeyFormat\<close>.
\<close>

definition InvalidKeyFormat :: exn where
  "InvalidKeyFormat = Error ''InvalidKeyFormat''"

definition charToNibble :: "16 word \<Rightarrow> nat option" where
  "charToNibble c =
     (if 48 \<le> c \<and> c \<le> 57 then Some (unat c - 48)
      else if 65 \<le> c \<and> c \<le> 70 then Some (unat c - 55)
      else if 97 \<le> c \<and> c \<le> 102 then Some (unat c - 87)
      else None)"

definition nibbleToChar :: "nat \<Rightarrow> 16 word" where
  "nibbleToChar n = (if n < 10 then of_nat (48 + n) else of_nat (55 + n))"

fun isHexString :: "jsstring \<Rightarrow> bool" where
  "isHexString [] = True"
| "isHexString [c] = False"
| "isHexString (c1 # c2 # cs) =
     (case (charToNibble c1, charToNibble c2) of
        (Some h, Some l) \<Rightarrow> isHexString cs
      | _ \<Rightarrow> False)"

fun hexToUint8 :: "jsstring \<Rightarrow> exn + Uint8Array" where
  "hexToUint8 [] = Inr []"
| "hexToUint8 [c] = Inl InvalidKeyFormat"
| "hexToUint8 (c1 # c2 # cs) =
     (case (charToNibble c1, charToNibble c2) of
        (Some h, Some l) \<Rightarrow> andThen (hexToUint8 cs) (\<lambda>bs. Inr (of_nat (16 * h + l) # bs))
      | _ \<Rightarrow> Inl InvalidKeyFormat)"

fun uint8ToHex :: "Uint8Array \<Rightarrow> jsstring" where
  "uint8ToHex [] = []"
| "uint8ToHex (b # bs) =
     nibbleToChar (unat b div 16) # nibbleToChar (unat b mod 16) # uint8ToHex bs"

subsection \<open>Key agreement, AEAD and text encoding\<close>

text \<open>
  \<^verbatim>\<open>deriveSharedKey\<close> (\<^verbatim>\<open>../util/sharedKey\<close>), \<^verbatim>\<open>encodeAesGcm\<close> and
  \<^verbatim>\<open>decodeAesGcm\<close> (\<^verbatim>\<open>../util/cipherHelpers\<close>) and \<^verbatim>\<open>Convert.utf8ToUint8\<close> are
  missing too. They are parameters of the model: every operation of the class takes
  the record of them first. Each may throw. \<^verbatim>\<open>encodeAesGcm\<close> returns its three
  parts as hex strings (the source concatenates them to \<^verbatim>\<open>'01'\<close>), and draws a
  fresh initialization vector: the random bytes it reads are its last argument here.
\<close>

type_synonym SharedKeyDeriver = "Uint8Array \<Rightarrow> Uint8Array \<Rightarrow> exn + Uint8Array"

record AesGcmResult =
  tag :: jsstring
  initializationVector :: jsstring
  cipherText :: jsstring

record collaborators =
  deriveSharedKey :: SharedKeyDeriver
  encodeAesGcm ::
    "SharedKeyDeriver \<Rightarrow> Uint8Array \<Rightarrow> Uint8Array \<Rightarrow> Uint8Array \<Rightarrow> Uint8Array \<Rightarrow> exn + AesGcmResult"
  decodeAesGcm ::
    "SharedKeyDeriver \<Rightarrow> Uint8Array \<Rightarrow> Uint8Array \<Rightarrow> Uint8Array \<Rightarrow> exn + Uint8Array"
  utf8ToUint8 :: "jsstring \<Rightarrow> Uint8Array"

section \<open>The source file\<close>

subsection \<open>\<^verbatim>\<open>utf8ArrayToString\<close> (lines 6-12)\<close>

text \<open>
  \<^verbatim>\<open>String.fromCharCode(n)\<close> is the one-unit string of code unit \<open>n mod 2^16\<close>; on a
  byte that is the byte's value.
\<close>

definition fromCharCode :: "byte \<Rightarrow> jsstring" where
  "fromCharCode b = [ucast b]"

text \<open>The \<^verbatim>\<open>for\<close> loop, with its counter \<open>i\<close> and the string built so far.\<close>

function utf8ArrayToString_loop :: "Uint8Array \<Rightarrow> nat \<Rightarrow> jsstring \<Rightarrow> jsstring" where
  "utf8ArrayToString_loop uint8Array i string =
     (if i < length uint8Array
      then utf8ArrayToString_loop uint8Array (i + 1) (string @ fromCharCode (uint8Array ! i))
      else string)"
  by pat_completeness auto
termination
  by (relation "measure (\<lambda>(uint8Array, i, string). length uint8Array - i)") auto

declare utf8ArrayToString_loop.simps [simp del]

definition utf8ArrayToString :: "Uint8Array \<Rightarrow> jsstring" where
  "utf8ArrayToString uint8Array = utf8ArrayToString_loop uint8Array 0 []"

subsection \<open>\<^verbatim>\<open>filterExceptions\<close> (lines 14-24)\<close>

text \<open>\<^verbatim>\<open>s.includes(p)\<close>: \<open>p\<close> occurs in \<open>s\<close> as a contiguous run.\<close>

fun string_includes :: "'a list \<Rightarrow> 'a list \<Rightarrow> bool" where
  "string_includes [] p = (p = [])"
| "string_includes (c # cs) p = (take (length p) (c # cs) = p \<or> string_includes cs p)"

definition filterExceptions ::
  "(unit \<Rightarrow> exn + Uint8Array) \<Rightarrow> string list \<Rightarrow> exn + (bool \<times> Uint8Array option)" where
  "filterExceptions statement exceptions =
     (case statement () of
        Inr msg \<Rightarrow> Inr (True, Some msg)
      | Inl exception \<Rightarrow>
          if \<not> list_ex (\<lambda>exceptionMessage. string_includes (exn_message exception) exceptionMessage)
                 exceptions
          then Inl exception
          else Inr (False, None))"

subsection \<open>\<^verbatim>\<open>MessageEncoder\<close> (lines 29-121)\<close>

text \<open>
  \<^verbatim>\<open>typeof x === 'string' ? Convert.hexToUint8(x) : x\<close>, the normalisation every
  method applies to its key and envelope arguments.
\<close>

fun hexOrBytes :: "str_or_bytes \<Rightarrow> exn + Uint8Array" where
  "hexOrBytes (Str s) = hexToUint8 s"
| "hexOrBytes (Bytes b) = Inr b"

definition MessageEncoder_new :: "str_or_bytes \<Rightarrow> exn + MessageEncoder" where
  "MessageEncoder_new key = andThen (hexOrBytes key) (\<lambda>k. Inr \<lparr>privateKey = k\<rparr>)"

definition tryDecode ::
  "collaborators \<Rightarrow> MessageEncoder \<Rightarrow> str_or_bytes \<Rightarrow> str_or_bytes \<Rightarrow> exn + TryDecodeResult" where
  "tryDecode E this senderPublicKey0 encodedMessage0 =
     andThen (hexOrBytes senderPublicKey0) (\<lambda>senderPublicKey.
     andThen (hexOrBytes encodedMessage0) (\<lambda>encodedMessage.
       if Some 1 = index encodedMessage 0 then
         andThen
           (filterExceptions
              (\<lambda>_. decodeAesGcm E (deriveSharedKey E) (privateKey this) senderPublicKey
                      (drop 1 encodedMessage))
              [''Unsupported state or unable to authenticate data'', ''invalid point''])
           (\<lambda>(result, msg).
              if result then
                (case msg of
                   Some m \<Rightarrow> Inr \<lparr>isDecoded = True, message = Str (utf8ArrayToString m)\<rparr>
                 | None \<Rightarrow> Inl (Error ''TypeError''))
              else Inr \<lparr>isDecoded = False, message = Bytes encodedMessage\<rparr>)
       else Inr \<lparr>isDecoded = False, message = Bytes encodedMessage\<rparr>))"

definition messageBytes :: "collaborators \<Rightarrow> str_or_bytes \<Rightarrow> Uint8Array" where
  "messageBytes E msg = (case msg of Str s \<Rightarrow> utf8ToUint8 E s | Bytes b \<Rightarrow> b)"

definition encode ::
  "collaborators \<Rightarrow> MessageEncoder \<Rightarrow> Uint8Array \<Rightarrow> str_or_bytes \<Rightarrow> str_or_bytes \<Rightarrow> exn + Uint8Array" where
  "encode E this entropy recipientPublicKey0 message0 =
     andThen (hexOrBytes recipientPublicKey0) (\<lambda>recipientPublicKey.
     andThen
       (encodeAesGcm E (deriveSharedKey E) (privateKey this) recipientPublicKey
          (messageBytes E message0) entropy)
       (\<lambda>r. hexToUint8 (str ''01'' @ tag r @ initializationVector r @ cipherText r)))"

definition encodeDeprecated ::
  "collaborators \<Rightarrow> MessageEncoder \<Rightarrow> Uint8Array \<Rightarrow> str_or_bytes \<Rightarrow> str_or_bytes \<Rightarrow> exn + Uint8Array" where
  "encodeDeprecated E this entropy recipientPublicKey message0 =
     andThen (encode E this entropy recipientPublicKey message0) (\<lambda>encoded.
       let encodedHexString = uint8ToHex (drop 1 encoded) in
       andThen (hexToUint8 encodedHexString) (\<lambda>encodedHexStringBytes.
         Inr (1 # encodedHexStringBytes)))"

definition tryDecodeDeprecated ::
  "collaborators \<Rightarrow> MessageEncoder \<Rightarrow> str_or_bytes \<Rightarrow> str_or_bytes \<Rightarrow> exn + TryDecodeResult" where
  "tryDecodeDeprecated E this senderPublicKey0 encodedMessage0 =
     andThen (hexOrBytes senderPublicKey0) (\<lambda>senderPublicKey.
     andThen (hexOrBytes encodedMessage0) (\<lambda>encodedMessage.
       let encodedHexString = uint8ToHex (drop 1 encodedMessage) in
       if Some 1 = index encodedMessage 0 \<and> isHexString encodedHexString then
         andThen (hexToUint8 encodedHexString) (\<lambda>bs.
           tryDecode E this (Bytes senderPublicKey) (Bytes (1 # bs)))
       else tryDecode E this (Bytes senderPublicKey) (Bytes encodedMessage)))"

section \<open>A small instance of the collaborators\<close>

text \<open>
  The operations are run on concrete inputs with the following stand-ins for the missing
  primitives. They have the interface of the real ones and fail with the same messages;
  they are not the real cryptography. Key agreement: a public key is the private key
  times 3, byte by byte, and the shared key is the product of one side's private key and
  the other side's public key, so both sides derive the same key. The cipher adds a
  two-byte checksum as the tag, reads a two-byte initialization vector from the random
  bytes, and XORs every message byte with one pad byte.
\<close>

definition toy_publicKey :: "Uint8Array \<Rightarrow> Uint8Array" where
  "toy_publicKey priv = map (\<lambda>a. 3 * a) priv"

definition toy_deriveSharedKey :: SharedKeyDeriver where
  "toy_deriveSharedKey priv pub =
     (if length pub = length priv then Inr (map2 (*) priv pub)
      else Inl (Error ''invalid point''))"

definition toy_pad :: "Uint8Array \<Rightarrow> Uint8Array \<Rightarrow> byte" where
  "toy_pad key iv = sum_list (key @ iv)"

definition toy_tag :: "byte \<Rightarrow> Uint8Array \<Rightarrow> Uint8Array" where
  "toy_tag pad ct = [pad + sum_list ct, of_nat (length ct)]"

definition toy_encodeAesGcm ::
  "SharedKeyDeriver \<Rightarrow> Uint8Array \<Rightarrow> Uint8Array \<Rightarrow> Uint8Array \<Rightarrow> Uint8Array \<Rightarrow> exn + AesGcmResult" where
  "toy_encodeAesGcm derive priv pub msg entropy =
     andThen (derive priv pub) (\<lambda>key.
       let iv = take 2 (entropy @ [0, 0]);
           pad = toy_pad key iv;
           ct = map (\<lambda>b. b XOR pad) msg
       in Inr \<lparr>tag = uint8ToHex (toy_tag pad ct),
               initializationVector = uint8ToHex iv,
               cipherText = uint8ToHex ct\<rparr>)"

definition toy_decodeAesGcm ::
  "SharedKeyDeriver \<Rightarrow> Uint8Array \<Rightarrow> Uint8Array \<Rightarrow> Uint8Array \<Rightarrow> exn + Uint8Array" where
  "toy_decodeAesGcm derive priv pub payload =
     (if length payload < 4 then Inl (Error ''Invalid initialization vector'')
      else
        andThen (derive priv pub) (\<lambda>key.
          let tg = take 2 payload;
              iv = take 2 (drop 2 payload);
              ct = drop 4 payload;
              pad = toy_pad key iv
          in if toy_tag pad ct = tg then Inr (map (\<lambda>b. b XOR pad) ct)
             else Inl (Error ''Unsupported state or unable to authenticate data'')))"

text \<open>
  UTF-8 of the code units below the surrogate range, in one to three bytes. A surrogate
  (the examples use none) is encoded like the other three-byte units.
\<close>

fun toy_utf8ToUint8 :: "jsstring \<Rightarrow> Uint8Array" where
  "toy_utf8ToUint8 [] = []"
| "toy_utf8ToUint8 (c # cs) =
     (if c < 0x80 then ucast c # toy_utf8ToUint8 cs
      else if c < 0x800 then
        (0xC0 OR ucast (drop_bit 6 c)) # (0x80 OR ucast (c AND 0x3F)) # toy_utf8ToUint8 cs
      else
        (0xE0 OR ucast (drop_bit 12 c)) # (0x80 OR ucast (drop_bit 6 c AND 0x3F)) #
        (0x80 OR ucast (c AND 0x3F)) # toy_utf8ToUint8 cs)"

definition toy :: collaborators where
  "toy = \<lparr>deriveSharedKey = toy_deriveSharedKey,
          encodeAesGcm = toy_encodeAesGcm,
          decodeAesGcm = toy_decodeAesGcm,
          utf8ToUint8 = toy_utf8ToUint8\<rparr>"

text \<open>Primitives that throw an unexpected error whenever they are called.\<close>

definition unavailable :: collaborators where
  "unavailable = \<lparr>deriveSharedKey = (\<lambda>_ _. Inl (Error ''primitive called'')),
          encodeAesGcm = (\<lambda>_ _ _ _ _. Inl (Error ''primitive called'')),
          decodeAesGcm = (\<lambda>_ _ _ _. Inl (Error ''primitive called'')),
          utf8ToUint8 = (\<lambda>_. [])\<rparr>"

text \<open>Two parties.\<close>

definition alice :: MessageEncoder where
  "alice = \<lparr>privateKey = [0xA1, 0x02]\<rparr>"

definition bob :: MessageEncoder where
  "bob = \<lparr>privateKey = [0xB2, 0x05]\<rparr>"

definition alice_public :: Uint8Array where
  "alice_public = toy_publicKey (privateKey alice)"

definition bob_public :: Uint8Array where
  "bob_public = toy_publicKey (privateKey bob)"

section \<open>Properties\<close>

subsection \<open>The helpers\<close>

lemma andThen_Inr_iff:
  "(andThen x f = Inr y) = (\<exists>a. x = Inr a \<and> f a = Inr y)"
  by (cases x) simp_all

lemma index_0_drop: "Some x = index a 0 \<Longrightarrow> x # drop 1 a = a"
  by (cases a) (auto simp: index_def)

lemma utf8ArrayToString_loop_eq:
  "utf8ArrayToString_loop a i s = s @ map ucast (drop i a)"
proof (induction a i s rule: utf8ArrayToString_loop.induct)
  case (1 a i s)
  show ?case
  proof (cases "i < length a")
    case True
    then have d: "drop i a = a ! i # drop (Suc i) a"
      by (simp add: Cons_nth_drop_Suc)
    have "utf8ArrayToString_loop a i s =
          utf8ArrayToString_loop a (i + 1) (s @ fromCharCode (a ! i))"
      using True by (subst utf8ArrayToString_loop.simps) simp
    also have "\<dots> = (s @ fromCharCode (a ! i)) @ map ucast (drop (i + 1) a)"
      using True by (rule "1.IH")
    finally show ?thesis
      by (simp add: d fromCharCode_def)
  next
    case False
    then have "utf8ArrayToString_loop a i s = s"
      by (subst utf8ArrayToString_loop.simps) simp
    with False show ?thesis by simp
  qed
qed

lemma utf8ArrayToString_eq: "utf8ArrayToString a = map ucast a"
  by (simp add: utf8ArrayToString_def utf8ArrayToString_loop_eq)

lemma unat_ucast_byte: "unat (ucast (b :: byte) :: 16 word) = unat b"
proof -
  have "unat b < 2 ^ LENGTH(8)" by (rule unsigned_less)
  then have "unat b < 2 ^ 16" by simp
  then show ?thesis by (simp add: unsigned_ucast_eq take_bit_nat_eq_self)
qed

lemma ucast_byte_less: "(ucast (b :: byte) :: 16 word) < 256"
proof -
  have "unat b < 2 ^ LENGTH(8)" by (rule unsigned_less)
  then show ?thesis by (simp add: word_less_nat_alt unat_ucast_byte)
qed

subsection \<open>Hex conversion\<close>

lemma unat_nibbleToChar:
  "n < 16 \<Longrightarrow> unat (nibbleToChar n) = (if n < 10 then 48 + n else 55 + n)"
  unfolding nibbleToChar_def by (simp add: unat_of_nat del: of_nat_add)

lemma charToNibble_nibbleToChar:
  "n < 16 \<Longrightarrow> charToNibble (nibbleToChar n) = Some n"
  by (auto simp: charToNibble_def word_le_nat_alt unat_nibbleToChar)

lemma high_nibble_less: "unat (b :: byte) div 16 < 16"
proof -
  have "unat b < 2 ^ LENGTH(8)" by (rule unsigned_less)
  then show ?thesis by simp
qed

text \<open>Bytes to hex text and back is the identity, and the hex text is always valid.\<close>

lemma hexToUint8_uint8ToHex: "hexToUint8 (uint8ToHex bs) = Inr bs"
  by (induction bs) (simp_all add: charToNibble_nibbleToChar high_nibble_less)

lemma isHexString_uint8ToHex: "isHexString (uint8ToHex bs)"
  by (induction bs) (simp_all add: charToNibble_nibbleToChar high_nibble_less)

lemma str_01: "str ''01'' = [48, 49]"
  by (simp add: str_def)

lemma hexToUint8_01:
  "hexToUint8 (str ''01'' @ s) = andThen (hexToUint8 s) (\<lambda>bs. Inr (1 # bs))"
  by (simp add: str_01 charToNibble_def)

lemma hexToUint8_length: "hexToUint8 s = Inr bs \<Longrightarrow> length s = 2 * length bs"
  by (induction s arbitrary: bs rule: hexToUint8.induct)
     (auto simp: andThen_Inr_iff split: option.splits)

lemma isHexString_hexToUint8: "isHexString s \<Longrightarrow> \<exists>bs. hexToUint8 s = Inr bs"
  by (induction s rule: hexToUint8.induct) (auto simp: andThen_Inr_iff split: option.splits)

lemma isHexString_append: "isHexString s \<Longrightarrow> isHexString (s @ t) = isHexString t"
  by (induction s rule: isHexString.induct) (auto split: option.splits)

subsection \<open>\<^verbatim>\<open>tryDecode\<close> and \<^verbatim>\<open>encode\<close>, unfolded\<close>

text \<open>
  Once both arguments are normalised, \<^verbatim>\<open>tryDecode\<close> is a case analysis on the marker
  byte and on the outcome of \<^verbatim>\<open>decodeAesGcm\<close>.
\<close>

lemma tryDecode_normalised:
  "hexOrBytes senderPublicKey = Inr k \<Longrightarrow> hexOrBytes encodedMessage = Inr env \<Longrightarrow>
   tryDecode E this senderPublicKey encodedMessage =
     (if Some 1 = index env 0 then
        (case decodeAesGcm E (deriveSharedKey E) (privateKey this) k (drop 1 env) of
           Inr m \<Rightarrow> Inr \<lparr>isDecoded = True, message = Str (utf8ArrayToString m)\<rparr>
         | Inl e \<Rightarrow>
             if string_includes (exn_message e) ''Unsupported state or unable to authenticate data''
                \<or> string_includes (exn_message e) ''invalid point''
             then Inr \<lparr>isDecoded = False, message = Bytes env\<rparr>
             else Inl e)
      else Inr \<lparr>isDecoded = False, message = Bytes env\<rparr>)"
  by (simp add: tryDecode_def filterExceptions_def split: sum.splits)

text \<open>A decoded message never holds a code unit above 255.\<close>

lemma tryDecode_decoded_units:
  assumes "tryDecode E this senderPublicKey encodedMessage =
             Inr \<lparr>isDecoded = True, message = Str s\<rparr>"
  shows "list_all (\<lambda>c. c < 256) s"
proof -
  from assms obtain k env
    where n: "hexOrBytes senderPublicKey = Inr k" "hexOrBytes encodedMessage = Inr env"
    by (auto simp: tryDecode_def andThen_Inr_iff)
  from assms obtain m where "s = utf8ArrayToString m"
    unfolding tryDecode_normalised [OF n]
    by (auto split: if_splits sum.splits)
  then show ?thesis
    by (simp add: utf8ArrayToString_eq list_all_iff ucast_byte_less)
qed

lemma encode_first_byte:
  "encode E this entropy k m = Inr env \<Longrightarrow> \<exists>rest. env = 1 # rest"
  by (auto simp: encode_def andThen_Inr_iff hexToUint8_01)

text \<open>
  What the round trip does for primitives that keep their contract (\<^verbatim>\<open>decodeAesGcm\<close>
  gives back the bytes \<^verbatim>\<open>encodeAesGcm\<close> was given): the decoded message is the
  message's bytes, each widened to one code unit.
\<close>

lemma tryDecode_encode:
  assumes "hexOrBytes key = Inr k"
    and "encodeAesGcm E (deriveSharedKey E) (privateKey this) k (messageBytes E msg) entropy = Inr r"
    and "hexToUint8 (tag r @ initializationVector r @ cipherText r) = Inr payload"
    and "decodeAesGcm E (deriveSharedKey E) (privateKey this) k payload = Inr (messageBytes E msg)"
  shows "encode E this entropy key msg = Inr (1 # payload) \<and>
         tryDecode E this key (Bytes (1 # payload)) =
           Inr \<lparr>isDecoded = True, message = Str (map ucast (messageBytes E msg))\<rparr>"
proof -
  have "encode E this entropy key msg = Inr (1 # payload)"
    using assms(1-3) by (simp add: encode_def hexToUint8_01)
  moreover have "tryDecode E this key (Bytes (1 # payload)) =
      Inr \<lparr>isDecoded = True, message = Str (map ucast (messageBytes E msg))\<rparr>"
    using assms(1,4)
    by (simp add: tryDecode_normalised [where env = "1 # payload"] index_def utf8ArrayToString_eq)
  ultimately show ?thesis by simp
qed

text \<open>The two deprecated methods compute what the recommended ones compute.\<close>

lemma encodeDeprecated_encode:
  "encodeDeprecated E this entropy k m = encode E this entropy k m"
proof (cases "encode E this entropy k m")
  case (Inl e)
  then show ?thesis by (simp add: encodeDeprecated_def)
next
  case (Inr env)
  then obtain rest where "env = 1 # rest" by (auto dest: encode_first_byte)
  with Inr show ?thesis
    by (simp add: encodeDeprecated_def hexToUint8_uint8ToHex)
qed

lemma tryDecodeDeprecated_tryDecode:
  "tryDecodeDeprecated E this senderPublicKey encodedMessage =
   tryDecode E this senderPublicKey encodedMessage"
proof (cases "hexOrBytes senderPublicKey")
  case (Inl e)
  then show ?thesis by (simp add: tryDecodeDeprecated_def tryDecode_def)
next
  case pk: (Inr k)
  show ?thesis
  proof (cases "hexOrBytes encodedMessage")
    case (Inl e)
    with pk show ?thesis by (simp add: tryDecodeDeprecated_def tryDecode_def)
  next
    case em: (Inr m)
    have same: "tryDecode E this (Bytes k) (Bytes m) =
                tryDecode E this senderPublicKey encodedMessage"
      using pk em by (simp add: tryDecode_def)
    show ?thesis
    proof (cases "Some 1 = index m 0")
      case True
      then have "1 # drop 1 m = m" by (rule index_0_drop)
      with True pk em same show ?thesis
        by (simp add: tryDecodeDeprecated_def isHexString_uint8ToHex hexToUint8_uint8ToHex)
    next
      case False
      with pk em same show ?thesis
        by (simp add: tryDecodeDeprecated_def)
    qed
  qed
qed

subsection \<open>Runs on the small instance\<close>

lemma bob_encodes_hello:
  "encode toy bob [7, 9] (Bytes alice_public) (Str (str ''hello'')) =
     Inr [1, 12, 5, 7, 9, 108, 97, 104, 104, 107]"
  by code_simp

lemma bob_encodes_euro:
  "encode toy bob [7, 9] (Bytes alice_public) (Str [0x20AC]) =
     Inr [1, 24, 3, 7, 9, 230, 134, 168]"
  by code_simp

lemma bob_decodes_euro:
  "tryDecode toy bob (Bytes alice_public) (Bytes [1, 24, 3, 7, 9, 230, 134, 168]) =
     Inr \<lparr>isDecoded = True, message = Str [0xE2, 0x82, 0xAC]\<rparr>"
  by code_simp

lemma hex_keys:
  "hexOrBytes (Str (str ''E306'')) = Inr alice_public"
  "hexOrBytes (Str (str ''160F'')) = Inr bob_public"
  by code_simp+

subsection \<open>The claims\<close>

text \<open>
  C1. Round trip: for all key pairs (A, B) and plaintexts M, decoding with B's codec and
  A's public key the envelope that B's codec produced for recipient A returns
  \<^verbatim>\<open>{isDecoded: true}\<close> carrying exactly M.

  It fails for text: \<^verbatim>\<open>encode\<close> turns the text into bytes with \<^verbatim>\<open>utf8ToUint8\<close>, and
  \<^verbatim>\<open>tryDecode\<close> turns the bytes back with \<^verbatim>\<open>utf8ArrayToString\<close>, which makes one
  code unit of every byte. On the small instance the one-character message U+20AC comes
  back as the three characters U+00E2 U+0082 U+00AC; and whatever the primitives are,
  no envelope decodes to the message U+20AC.
\<close>

theorem roundtrip_loses_text:
  "encode toy bob [7, 9] (Bytes alice_public) (Str [0x20AC]) =
     Inr [1, 24, 3, 7, 9, 230, 134, 168]
   \<and> tryDecode toy bob (Bytes alice_public) (Bytes [1, 24, 3, 7, 9, 230, 134, 168]) =
     Inr \<lparr>isDecoded = True, message = Str [0xE2, 0x82, 0xAC]\<rparr>
   \<and> (\<forall>E this key envelope.
        tryDecode E this key envelope \<noteq> Inr \<lparr>isDecoded = True, message = Str [0x20AC]\<rparr>)"
proof -
  have "tryDecode E this key envelope \<noteq> Inr \<lparr>isDecoded = True, message = Str [0x20AC]\<rparr>"
    for E this key envelope
  proof
    assume "tryDecode E this key envelope = Inr \<lparr>isDecoded = True, message = Str [0x20AC]\<rparr>"
    then have "list_all (\<lambda>c. c < 256) [0x20AC :: 16 word]"
      by (rule tryDecode_decoded_units)
    then show False by simp
  qed
  with bob_encodes_euro bob_decodes_euro show ?thesis by blast
qed

text \<open>
  C2. The output of \<^verbatim>\<open>encodeDeprecated\<close> is not equal to the output of \<^verbatim>\<open>encode\<close> on
  the same inputs: its payload is the hex text of \<^verbatim>\<open>encode\<close>'s tag, IV and ciphertext.

  In the code the two outputs are equal, on every input: the hex text is parsed back
  with \<^verbatim>\<open>hexToUint8\<close>, which undoes \<^verbatim>\<open>uint8ToHex\<close>. For the message "hello" both
  give the same ten bytes, where the wallet format would carry the eighteen characters
  \<^verbatim>\<open>0C0507096C6168686B\<close> after the marker.
\<close>

theorem encodeDeprecated_is_encode:
  "encode toy bob [7, 9] (Bytes alice_public) (Str (str ''hello'')) =
     Inr [1, 12, 5, 7, 9, 108, 97, 104, 104, 107]
   \<and> encodeDeprecated toy bob [7, 9] (Bytes alice_public) (Str (str ''hello'')) =
     Inr [1, 12, 5, 7, 9, 108, 97, 104, 104, 107]
   \<and> (\<forall>E this entropy key msg.
        encodeDeprecated E this entropy key msg = encode E this entropy key msg)"
  by (simp add: encodeDeprecated_encode bob_encodes_hello)

text \<open>
  C3. For an envelope whose first byte is 1, \<^verbatim>\<open>tryDecode\<close> turns exactly two kinds of
  failure of the primitives into \<^verbatim>\<open>{isDecoded: false, message: envelope}\<close>: the
  authentication failure and the invalid curve point, recognised by their messages
  (the thrown error's message includes \<^verbatim>\<open>Unsupported state or unable to authenticate
  data\<close> or \<^verbatim>\<open>invalid point\<close>). Every other failure is thrown on to the caller as it
  is.
\<close>

theorem tryDecode_filters_two_failures:
  assumes "hexOrBytes senderPublicKey = Inr k"
    and "hexOrBytes encodedMessage = Inr env"
    and "index env 0 = Some 1"
    and "decodeAesGcm E (deriveSharedKey E) (privateKey this) k (drop 1 env) = Inl (Error failure)"
  shows "tryDecode E this senderPublicKey encodedMessage =
     (if string_includes failure ''Unsupported state or unable to authenticate data''
         \<or> string_includes failure ''invalid point''
      then Inr \<lparr>isDecoded = False, message = Bytes env\<rparr>
      else Inl (Error failure))"
  using assms(3,4) by (simp add: tryDecode_normalised [OF assms(1,2)])

text \<open>
  The three cases on the small instance: a tampered envelope (authentication fails), a
  sender key of the wrong size (invalid point), and an envelope too short to hold an
  initialization vector (another failure, which is thrown on).
\<close>

theorem tryDecode_filters_two_failures_witness:
  "tryDecode toy alice (Bytes bob_public) (Bytes [1, 12, 5, 7, 9, 108, 97, 104, 104, 108]) =
     Inr \<lparr>isDecoded = False, message = Bytes [1, 12, 5, 7, 9, 108, 97, 104, 104, 108]\<rparr>
   \<and> tryDecode toy alice (Bytes [1]) (Bytes [1, 12, 5, 7, 9, 108, 97, 104, 104, 107]) =
     Inr \<lparr>isDecoded = False, message = Bytes [1, 12, 5, 7, 9, 108, 97, 104, 104, 107]\<rparr>
   \<and> tryDecode toy alice (Str (str ''160F'')) (Bytes [1, 2, 3]) =
     Inl (Error ''Invalid initialization vector'')"
proof -
  have auth: "decodeAesGcm toy (deriveSharedKey toy) (privateKey alice) bob_public
                (drop 1 [1, 12, 5, 7, 9, 108, 97, 104, 104, 108]) =
              Inl (Error ''Unsupported state or unable to authenticate data'')"
    by code_simp
  have point: "decodeAesGcm toy (deriveSharedKey toy) (privateKey alice) [1]
                (drop 1 [1, 12, 5, 7, 9, 108, 97, 104, 104, 107]) =
               Inl (Error ''invalid point'')"
    by code_simp
  have other: "decodeAesGcm toy (deriveSharedKey toy) (privateKey alice) bob_public
                (drop 1 [1, 2, 3]) =
               Inl (Error ''Invalid initialization vector'')"
    by code_simp
  have inc:
    "string_includes ''Unsupported state or unable to authenticate data''
       ''Unsupported state or unable to authenticate data''"
    "string_includes ''invalid point'' ''invalid point''"
    "\<not> string_includes ''Invalid initialization vector''
       ''Unsupported state or unable to authenticate data''"
    "\<not> string_includes ''Invalid initialization vector'' ''invalid point''"
    by code_simp+
  have marker: "index [1, 12, 5, 7, 9, 108, 97, 104, 104, 108 :: byte] 0 = Some 1"
    "index [1, 12, 5, 7, 9, 108, 97, 104, 104, 107 :: byte] 0 = Some 1"
    "index [1, 2, 3 :: byte] 0 = Some 1"
    by (simp_all add: index_def)
  note a = tryDecode_filters_two_failures [OF hexOrBytes.simps(2) hexOrBytes.simps(2) marker(1) auth]
  note b = tryDecode_filters_two_failures [OF hexOrBytes.simps(2) hexOrBytes.simps(2) marker(2) point]
  note c = tryDecode_filters_two_failures [OF hex_keys(2) hexOrBytes.simps(2) marker(3) other]
  from a b c show ?thesis by (simp add: inc)
qed

text \<open>
  C4. Legacy round trip: decoding with \<^verbatim>\<open>tryDecodeDeprecated\<close> the envelope that
  \<^verbatim>\<open>encodeDeprecated\<close> produced returns \<^verbatim>\<open>{isDecoded: true}\<close> carrying exactly M.

  It fails for text as the round trip of C1 does, and for the same reason: the decoded
  string has one code unit for every byte of the message.
\<close>

theorem legacy_roundtrip_loses_text:
  "encodeDeprecated toy bob [7, 9] (Bytes alice_public) (Str [0x20AC]) =
     Inr [1, 24, 3, 7, 9, 230, 134, 168]
   \<and> tryDecodeDeprecated toy bob (Bytes alice_public) (Bytes [1, 24, 3, 7, 9, 230, 134, 168]) =
     Inr \<lparr>isDecoded = True, message = Str [0xE2, 0x82, 0xAC]\<rparr>
   \<and> (\<forall>E this key envelope.
        tryDecodeDeprecated E this key envelope \<noteq>
          Inr \<lparr>isDecoded = True, message = Str [0x20AC]\<rparr>)"
proof -
  have "tryDecodeDeprecated E this key envelope \<noteq>
          Inr \<lparr>isDecoded = True, message = Str [0x20AC]\<rparr>"
    for E this key envelope
  proof
    assume "tryDecodeDeprecated E this key envelope =
              Inr \<lparr>isDecoded = True, message = Str [0x20AC]\<rparr>"
    then have "tryDecode E this key envelope = Inr \<lparr>isDecoded = True, message = Str [0x20AC]\<rparr>"
      by (simp add: tryDecodeDeprecated_tryDecode)
    then have "list_all (\<lambda>c. c < 256) [0x20AC :: 16 word]"
      by (rule tryDecode_decoded_units)
    then show False by simp
  qed
  then show ?thesis
    by (simp add: encodeDeprecated_encode tryDecodeDeprecated_tryDecode
        bob_encodes_euro bob_decodes_euro)
qed

text \<open>
  C5. For an envelope whose first byte is not 1, given as bytes or as a hex string,
  \<^verbatim>\<open>tryDecode\<close> returns \<^verbatim>\<open>{isDecoded: false}\<close> with the envelope's bytes as the
  message. The primitives play no part: the result is the same for every record of
  them, also for primitives that throw whenever they are called.
\<close>

theorem tryDecode_foreign_marker:
  assumes "hexOrBytes senderPublicKey = Inr k"
    and "hexOrBytes encodedMessage = Inr env"
    and "index env 0 \<noteq> Some 1"
  shows "tryDecode E this senderPublicKey encodedMessage =
           Inr \<lparr>isDecoded = False, message = Bytes env\<rparr>"
  using assms(3) by (auto simp add: tryDecode_normalised [OF assms(1,2)])

theorem tryDecode_foreign_marker_witness:
  "tryDecode unavailable alice (Str (str ''160F'')) (Str (str ''02ff01'')) =
     Inr \<lparr>isDecoded = False, message = Bytes [2, 255, 1]\<rparr>
   \<and> tryDecode unavailable alice (Bytes bob_public) (Bytes [0, 1]) =
     Inr \<lparr>isDecoded = False, message = Bytes [0, 1]\<rparr>"
proof -
  have env: "hexOrBytes (Str (str ''02ff01'')) = Inr [2, 255, 1]"
    by code_simp
  have marker: "index [2, 255, 1 :: byte] 0 \<noteq> Some 1" "index [0, 1 :: byte] 0 \<noteq> Some 1"
    by (simp_all add: index_def)
  from tryDecode_foreign_marker [OF hex_keys(2) env marker(1)]
    tryDecode_foreign_marker [OF hexOrBytes.simps(2) hexOrBytes.simps(2) marker(2)]
  show ?thesis by simp
qed

text \<open>
  C6. On successful decryption \<^verbatim>\<open>tryDecode\<close> returns the recovered bytes as a string
  with one character for every byte, the character's code being the byte's value: the
  string is as long as the byte sequence and its \<open>i\<close>-th code unit equals the \<open>i\<close>-th
  byte. No multi-byte UTF-8 sequence is decoded.
\<close>

theorem tryDecode_widens_bytes:
  assumes "hexOrBytes senderPublicKey = Inr k"
    and "hexOrBytes encodedMessage = Inr env"
    and "index env 0 = Some 1"
    and "decodeAesGcm E (deriveSharedKey E) (privateKey this) k (drop 1 env) = Inr b"
  shows "\<exists>s. tryDecode E this senderPublicKey encodedMessage =
               Inr \<lparr>isDecoded = True, message = Str s\<rparr>
             \<and> length s = length b
             \<and> (\<forall>i < length b. unat (s ! i) = unat (b ! i))"
  using assms(3,4)
  by (simp add: tryDecode_normalised [OF assms(1,2)] utf8ArrayToString_eq unat_ucast_byte)

theorem tryDecode_widens_bytes_witness:
  "decodeAesGcm toy (deriveSharedKey toy) (privateKey alice) bob_public
     (drop 1 [1, 8, 3, 16, 32, 219, 101, 164]) = Inr [0xFF, 0x41, 0x80]
   \<and> tryDecode toy alice (Bytes bob_public) (Bytes [1, 8, 3, 16, 32, 219, 101, 164]) =
     Inr \<lparr>isDecoded = True, message = Str [0xFF, 0x41, 0x80]\<rparr>"
proof -
  have dec: "decodeAesGcm toy (deriveSharedKey toy) (privateKey alice) bob_public
     (drop 1 [1, 8, 3, 16, 32, 219, 101, 164]) = Inr [0xFF, 0x41, 0x80]"
    by code_simp
  have marker: "index [1, 8, 3, 16, 32, 219, 101, 164 :: byte] 0 = Some 1"
    by (simp add: index_def)
  from tryDecode_widens_bytes [OF hexOrBytes.simps(2) hexOrBytes.simps(2) marker dec]
  obtain s where s: "tryDecode toy alice (Bytes bob_public) (Bytes [1, 8, 3, 16, 32, 219, 101, 164]) =
        Inr \<lparr>isDecoded = True, message = Str s\<rparr>"
    and len: "length s = 3"
    and units: "\<forall>i < 3. unat (s ! i) = unat ([0xFF, 0x41, 0x80 :: byte] ! i)"
    by auto
  from units have "unat (s ! 0) = 255" "unat (s ! Suc 0) = 65" "unat (s ! Suc (Suc 0)) = 128"
    by (simp_all add: numeral_3_eq_3)
  then have "s ! 0 = 255" "s ! Suc 0 = 65" "s ! Suc (Suc 0) = 128"
    by (simp_all add: word_unat_eq_iff)
  with len have "s = [255, 65, 128]"
    by (simp add: list_eq_iff_nth_eq numeral_3_eq_3 less_Suc_eq)
  with s dec show ?thesis by simp
qed

text \<open>
  C7. \<^verbatim>\<open>tryDecodeDeprecated\<close> returns what \<^verbatim>\<open>tryDecode\<close> returns, for every sender
  public key and every envelope: the hex text it tests is the output of \<^verbatim>\<open>uint8ToHex\<close>,
  always a valid hex string, and parsing it back gives the envelope's own bytes.
\<close>

theorem tryDecodeDeprecated_eq_tryDecode:
  "isHexString (uint8ToHex bs)
   \<and> hexToUint8 (uint8ToHex bs) = Inr bs
   \<and> tryDecodeDeprecated E this senderPublicKey encodedMessage =
     tryDecode E this senderPublicKey encodedMessage"
  by (simp add: isHexString_uint8ToHex hexToUint8_uint8ToHex tryDecodeDeprecated_tryDecode)

text \<open>
  C8. For a message of \<open>n\<close> bytes \<^verbatim>\<open>encode\<close> produces an envelope of exactly
  \<open>1 + tagLen + ivLen + n\<close> bytes, when the AEAD primitive, called on those \<open>n\<close> bytes,
  returns a tag of \<open>tagLen\<close> bytes, an initialization vector of \<open>ivLen\<close> bytes and a
  ciphertext as long as the plaintext, each as a hex string. The message is the byte
  sequence \<open>b\<close> itself (\<open>n = length b\<close>), or a text \<open>s\<close> that \<^verbatim>\<open>utf8ToUint8\<close> turns
  into the \<open>n\<close> bytes \<open>b\<close>.
\<close>

theorem encode_length:
  assumes "hexOrBytes recipientPublicKey = Inr k"
    and "encodeAesGcm E (deriveSharedKey E) (privateKey this) k b entropy = Inr r"
    and "isHexString (tag r)" and "length (tag r) = 2 * tagLen"
    and "isHexString (initializationVector r)" and "length (initializationVector r) = 2 * ivLen"
    and "isHexString (cipherText r)" and "length (cipherText r) = 2 * length b"
  shows "(\<exists>env. encode E this entropy recipientPublicKey (Bytes b) = Inr env
            \<and> length env = 1 + tagLen + ivLen + length b)
         \<and> (utf8ToUint8 E s = b \<longrightarrow>
              (\<exists>env. encode E this entropy recipientPublicKey (Str s) = Inr env
                 \<and> length env = 1 + tagLen + ivLen + length b))"
proof -
  have "isHexString (tag r @ initializationVector r @ cipherText r)"
    using assms(3,5,7) by (simp add: isHexString_append)
  then obtain payload
    where p: "hexToUint8 (tag r @ initializationVector r @ cipherText r) = Inr payload"
    by (auto dest: isHexString_hexToUint8)
  from hexToUint8_length [OF p] assms(4,6,8)
  have len: "length payload = tagLen + ivLen + length b" by simp
  have raw: "encode E this entropy recipientPublicKey (Bytes b) = Inr (1 # payload)"
    using assms(1,2) p by (simp add: encode_def messageBytes_def hexToUint8_01)
  have of_text: "encode E this entropy recipientPublicKey (Str s) = Inr (1 # payload)"
    if "utf8ToUint8 E s = b"
    using assms(1,2) p that by (simp add: encode_def messageBytes_def hexToUint8_01)
  from len raw of_text show ?thesis by simp
qed

text \<open>
  On the small instance, whose tag and IV have two bytes each: the five bytes of "hello"
  given as bytes, the text "hello", and the three bytes 00 80 FF.
\<close>

theorem encode_length_witness:
  "(\<exists>env. encode toy bob [7, 9] (Str (str ''E306'')) (Bytes [104, 101, 108, 108, 111]) = Inr env
       \<and> length env = 1 + 2 + 2 + 5)
   \<and> (\<exists>env. encode toy bob [7, 9] (Str (str ''E306'')) (Str (str ''hello'')) = Inr env
       \<and> length env = 1 + 2 + 2 + 5)
   \<and> (\<exists>env. encode toy bob [7, 9] (Str (str ''E306'')) (Bytes [0, 128, 255]) = Inr env
       \<and> length env = 1 + 2 + 2 + 3)"
proof -
  have hello: "utf8ToUint8 toy (str ''hello'') = [104, 101, 108, 108, 111]"
    by code_simp
  have r5: "encodeAesGcm toy (deriveSharedKey toy) (privateKey bob) alice_public
             [104, 101, 108, 108, 111] [7, 9] =
           Inr \<lparr>tag = str ''0C05'', initializationVector = str ''0709'',
                cipherText = str ''6C6168686B''\<rparr>"
    by code_simp
  have r3: "encodeAesGcm toy (deriveSharedKey toy) (privateKey bob) alice_public
             [0, 128, 255] [7, 9] =
           Inr \<lparr>tag = str ''8703'', initializationVector = str ''0709'',
                cipherText = str ''0484FB''\<rparr>"
    by code_simp
  have t5: "isHexString (tag \<lparr>tag = str ''0C05'', initializationVector = str ''0709'',
                cipherText = str ''6C6168686B''\<rparr>)"
    and tl5: "length (tag \<lparr>tag = str ''0C05'', initializationVector = str ''0709'',
                cipherText = str ''6C6168686B''\<rparr>) = 2 * 2"
    and i5: "isHexString (initializationVector \<lparr>tag = str ''0C05'',
                initializationVector = str ''0709'', cipherText = str ''6C6168686B''\<rparr>)"
    and il5: "length (initializationVector \<lparr>tag = str ''0C05'',
                initializationVector = str ''0709'', cipherText = str ''6C6168686B''\<rparr>) = 2 * 2"
    and c5: "isHexString (cipherText \<lparr>tag = str ''0C05'', initializationVector = str ''0709'',
                cipherText = str ''6C6168686B''\<rparr>)"
    and cl5: "length (cipherText \<lparr>tag = str ''0C05'', initializationVector = str ''0709'',
                cipherText = str ''6C6168686B''\<rparr>) = 2 * length [104, 101, 108, 108, 111 :: byte]"
    by code_simp+
  have t3: "isHexString (tag \<lparr>tag = str ''8703'', initializationVector = str ''0709'',
                cipherText = str ''0484FB''\<rparr>)"
    and tl3: "length (tag \<lparr>tag = str ''8703'', initializationVector = str ''0709'',
                cipherText = str ''0484FB''\<rparr>) = 2 * 2"
    and i3: "isHexString (initializationVector \<lparr>tag = str ''8703'',
                initializationVector = str ''0709'', cipherText = str ''0484FB''\<rparr>)"
    and il3: "length (initializationVector \<lparr>tag = str ''8703'',
                initializationVector = str ''0709'', cipherText = str ''0484FB''\<rparr>) = 2 * 2"
    and c3: "isHexString (cipherText \<lparr>tag = str ''8703'', initializationVector = str ''0709'',
                cipherText = str ''0484FB''\<rparr>)"
    and cl3: "length (cipherText \<lparr>tag = str ''8703'', initializationVector = str ''0709'',
                cipherText = str ''0484FB''\<rparr>) = 2 * length [0, 128, 255 :: byte]"
    by code_simp+
  note five = encode_length [OF hex_keys(1) r5 t5 tl5 i5 il5 c5 cl5, of "str ''hello''"]
  note three = encode_length [OF hex_keys(1) r3 t3 tl3 i3 il3 c3 cl3, of "[]"]
  have l5: "length [104, 101, 108, 108, 111 :: byte] = 5"
    and l3: "length [0, 128, 255 :: byte] = 3"
    by simp_all
  note a = five [THEN conjunct1, unfolded l5]
  note b = five [THEN conjunct2, THEN mp, OF hello, unfolded l5]
  note c = three [THEN conjunct1, unfolded l3]
  from a b c show ?thesis by blast
qed

text \<open>
  C9. The first byte of the output of \<^verbatim>\<open>encode\<close> is 1, and the first byte of the
  output of \<^verbatim>\<open>encodeDeprecated\<close> is 1, for every recipient public key and message.
\<close>

theorem encode_marker:
  "(encode E this entropy key msg = Inr env \<longrightarrow> index env 0 = Some 1) \<and>
   (encodeDeprecated E this entropy key msg = Inr env' \<longrightarrow> index env' 0 = Some 1)"
  by (auto simp: encodeDeprecated_def andThen_Inr_iff index_def dest!: encode_first_byte)

theorem encode_marker_witness:
  "encode toy bob [7, 9] (Bytes alice_public) (Str (str ''hello'')) =
     Inr [1, 12, 5, 7, 9, 108, 97, 104, 104, 107]
   \<and> encodeDeprecated toy bob [7, 9] (Bytes alice_public) (Str (str ''hello'')) =
     Inr [1, 12, 5, 7, 9, 108, 97, 104, 104, 107]
   \<and> index [1, 12, 5, 7, 9, 108, 97, 104, 104, 107 :: byte] 0 = Some 1"
proof -
  have dep: "encodeDeprecated toy bob [7, 9] (Bytes alice_public) (Str (str ''hello'')) =
     Inr [1, 12, 5, 7, 9, 108, 97, 104, 104, 107]"
    by code_simp
  from encode_marker [of toy bob "[7, 9]" "Bytes alice_public" "Str (str ''hello'')"
      "[1, 12, 5, 7, 9, 108, 97, 104, 104, 107]" "[1, 12, 5, 7, 9, 108, 97, 104, 104, 107]"]
    bob_encodes_hello dep
  show ?thesis by simp
qed

text \<open>
  C10. On the empty envelope \<^verbatim>\<open>tryDecode\<close> returns \<^verbatim>\<open>{isDecoded: false}\<close> with the
  empty byte sequence as the message: the read of the marker byte finds nothing
  (\<^verbatim>\<open>undefined\<close>, which is not 1), and no primitive is called.
\<close>

theorem tryDecode_empty:
  assumes "hexOrBytes senderPublicKey = Inr k"
  shows "index ([] :: Uint8Array) 0 = None
         \<and> tryDecode E this senderPublicKey (Bytes []) =
             Inr \<lparr>isDecoded = False, message = Bytes []\<rparr>
         \<and> tryDecode E this senderPublicKey (Str []) =
             Inr \<lparr>isDecoded = False, message = Bytes []\<rparr>"
  using assms by (simp add: tryDecode_def index_def)

theorem tryDecode_empty_witness:
  "tryDecode unavailable alice (Str (str ''160F'')) (Bytes []) =
     Inr \<lparr>isDecoded = False, message = Bytes []\<rparr>
   \<and> tryDecode unavailable alice (Str (str ''160F'')) (Str []) =
     Inr \<lparr>isDecoded = False, message = Bytes []\<rparr>"
  using tryDecode_empty [OF hex_keys(2), of unavailable alice] by simp

end
